theory Spec2Isabelle
  imports Main "HOL-Library.Word"
begin

section \<open>The XML tokenizer's Token (reference/XML/token.inl)\<close>

text \<open>
  \<^verbatim>\<open>token.inl\<close> holds the inline methods of class \<open>Token\<close>: two constructors, two
  setters and two getters over the members \<open>m_buffer\<close>, \<open>m_length\<close> and \<open>m_type\<close>.
  The methods are modelled as the C++ has them: each works on the object that \<open>this\<close>
  points to, so the state is an explicit store of Token objects and every method takes
  the store and the \<open>this\<close> pointer. The mutating methods return the updated store,
  the \<open>const\<close> methods return a value read from it.
\<close>

subsection \<open>Types declared outside token.inl\<close>

text \<open>
  Modelled from the spec: \<^verbatim>\<open>token.h\<close> and the headers with the typedefs \<open>cString\<close>,
  \<open>uInt\<close>, \<open>uInt2\<close> are missing. The spec calls the buffer member a raw pointer (a
  starting address into a character buffer), the length a non-negative count of
  characters and the type a small unsigned integer. Addresses are natural numbers with
  \<open>0\<close> the null pointer; \<open>uInt\<close> is an unsigned 32-bit and \<open>uInt2\<close> an unsigned 16-bit
  (two byte) integer. No method of \<^verbatim>\<open>token.inl\<close> computes with any of them: the values
  are only copied.
\<close>

type_synonym addr = nat
type_synonym cString = addr
type_synonym uInt = "32 word"
type_synonym uInt2 = "16 word"

text \<open>
  Modelled from the spec: class \<open>Text\<close> is missing. The spec's text span is an immutable
  value built by copying a \<open>(start, length)\<close> pair, with no validation, and read back as
  that pair. The constructor call \<^verbatim>\<open>Text (m_buffer, m_length)\<close> of \<open>GetText\<close> is the
  constructor of this datatype.
\<close>

datatype Text = Text cString uInt

text \<open>The three data members of class \<open>Token\<close>, as the methods name them.\<close>

record Token =
  m_buffer :: cString
  m_length :: uInt
  m_type :: uInt2

text \<open>
  The store gives the members of the Token object at every address where one may live.
\<close>

type_synonym store = "addr \<Rightarrow> Token"

subsection \<open>Class methods\<close>

text \<open>
  \<^verbatim>\<open>Token::Token (void) { }\<close>
  No member initialiser and an empty body: the three members of the new object are
  indeterminate. The program does not fix what they read as, so the members the new
  object comes with are the argument \<open>indet\<close> of the model, any Token value at all.
\<close>

definition Token_void :: "store \<Rightarrow> addr \<Rightarrow> Token \<Rightarrow> store" where
  "Token_void h this indet = h(this := indet)"

text \<open>
  \<^verbatim>\<open>Token::Token (cString buffer, uInt length, uInt2 type) :
      m_buffer (buffer), m_length (length), m_type (type) { }\<close>
\<close>

definition Token_init :: "store \<Rightarrow> addr \<Rightarrow> cString \<Rightarrow> uInt \<Rightarrow> uInt2 \<Rightarrow> store" where
  "Token_init h this buffer length' type =
     h(this := (h this)\<lparr>m_buffer := buffer, m_length := length', m_type := type\<rparr>)"

text \<open>
  \<^verbatim>\<open>void Token::SetText (cString buffer, uInt length)
  { m_buffer = buffer; m_length = length; }\<close>
\<close>

definition SetText :: "store \<Rightarrow> addr \<Rightarrow> cString \<Rightarrow> uInt \<Rightarrow> store" where
  "SetText h this buffer length' =
     h(this := (h this)\<lparr>m_buffer := buffer, m_length := length'\<rparr>)"

text \<open>
  \<^verbatim>\<open>Text Token::GetText (void) const { return Text (m_buffer, m_length); }\<close>
  The span is returned by value.
\<close>

definition GetText :: "store \<Rightarrow> addr \<Rightarrow> Text" where
  "GetText h this = Text (m_buffer (h this)) (m_length (h this))"

text \<open>
  \<^verbatim>\<open>void Token::SetType (uInt2 type) { m_type = type; }\<close>
\<close>

definition SetType :: "store \<Rightarrow> addr \<Rightarrow> uInt2 \<Rightarrow> store" where
  "SetType h this type = h(this := (h this)\<lparr>m_type := type\<rparr>)"

text \<open>
  \<^verbatim>\<open>uInt2 Token::GetType (void) const { return m_type; }\<close>
\<close>

definition GetType :: "store \<Rightarrow> addr \<Rightarrow> uInt2" where
  "GetType h this = m_type (h this)"

subsection \<open>The two-phase construction of the specification\<close>

text \<open>
  The specification describes the combined constructor as equivalent to default
  construction followed by \<open>SetText\<close> and \<open>SetType\<close>. This definition follows those words;
  it is compared with \<open>Token_init\<close> below.
\<close>

definition Token_two_phase ::
  "store \<Rightarrow> addr \<Rightarrow> Token \<Rightarrow> cString \<Rightarrow> uInt \<Rightarrow> uInt2 \<Rightarrow> store" where
  "Token_two_phase h this indet buffer length' type =
     SetType (SetText (Token_void h this indet) this buffer length') this type"

subsection \<open>The method bodies, statement by statement\<close>

text \<open>
  The functions above give the effect of each method. Whether a method can throw or
  run forever is a question about its statements, so the bodies are also written out as
  the statement lists the source has, in a statement language that can assign to the
  members of the object, return a value, throw and loop. The bodies of \<^verbatim>\<open>token.inl\<close>
  use assignments and \<^verbatim>\<open>return\<close> only.
\<close>

datatype 'r stmt =
    Assign "Token \<Rightarrow> Token"
  | Return "Token \<Rightarrow> 'r"
  | Throw
  | While "Token \<Rightarrow> bool" "'r stmt list"

text \<open>
  How the execution of a body ends: it runs to the closing brace, it returns a value, or
  it throws.
\<close>

datatype 'r outcome = Completed Token | Returned Token 'r | Thrown

text \<open>
  \<open>run n body t\<close> executes \<open>body\<close> on an object with members \<open>t\<close>. Every statement
  executed and every iteration of a loop takes one unit of the fuel \<open>n\<close>; \<open>None\<close> says
  that the fuel ran out before the body ended.
\<close>

fun run :: "nat \<Rightarrow> 'r stmt list \<Rightarrow> Token \<Rightarrow> 'r outcome option" where
  "run n [] t = Some (Completed t)"
| "run 0 (s # ss) t = None"
| "run (Suc n) (Assign f # ss) t = run n ss (f t)"
| "run (Suc n) (Return e # ss) t = Some (Returned t (e t))"
| "run (Suc n) (Throw # ss) t = Some Thrown"
| "run (Suc n) (While b body # ss) t =
     (if b t then
        (case run n body t of
           Some (Completed t') \<Rightarrow> run n (While b body # ss) t'
         | r \<Rightarrow> r)
      else run n ss t)"

text \<open>A body with no \<^verbatim>\<open>throw\<close> and no loop.\<close>

fun straight_line :: "'r stmt list \<Rightarrow> bool" where
  "straight_line [] = True"
| "straight_line (Assign f # ss) = straight_line ss"
| "straight_line (Return e # ss) = straight_line ss"
| "straight_line (Throw # ss) = False"
| "straight_line (While b body # ss) = False"

text \<open>\<^verbatim>\<open>Token::Token (void) { }\<close>\<close>

definition Token_void_body :: "unit stmt list" where
  "Token_void_body = []"

text \<open>
  \<^verbatim>\<open>Token::Token (cString buffer, uInt length, uInt2 type) :
      m_buffer (buffer), m_length (length), m_type (type) { }\<close>
  The member initialisers run in this order, then the empty body.
\<close>

definition Token_init_body :: "cString \<Rightarrow> uInt \<Rightarrow> uInt2 \<Rightarrow> unit stmt list" where
  "Token_init_body buffer length' type =
     [Assign (\<lambda>t. t\<lparr>m_buffer := buffer\<rparr>),
      Assign (\<lambda>t. t\<lparr>m_length := length'\<rparr>),
      Assign (\<lambda>t. t\<lparr>m_type := type\<rparr>)]"

text \<open>\<^verbatim>\<open>{ m_buffer = buffer; m_length = length; }\<close>\<close>

definition SetText_body :: "cString \<Rightarrow> uInt \<Rightarrow> unit stmt list" where
  "SetText_body buffer length' =
     [Assign (\<lambda>t. t\<lparr>m_buffer := buffer\<rparr>),
      Assign (\<lambda>t. t\<lparr>m_length := length'\<rparr>)]"

text \<open>\<^verbatim>\<open>{ return Text (m_buffer, m_length); }\<close>\<close>

definition GetText_body :: "Text stmt list" where
  "GetText_body = [Return (\<lambda>t. Text (m_buffer t) (m_length t))]"

text \<open>\<^verbatim>\<open>{ m_type = type; }\<close>\<close>

definition SetType_body :: "uInt2 \<Rightarrow> unit stmt list" where
  "SetType_body type = [Assign (\<lambda>t. t\<lparr>m_type := type\<rparr>)]"

text \<open>\<^verbatim>\<open>{ return m_type; }\<close>\<close>

definition GetType_body :: "uInt2 stmt list" where
  "GetType_body = [Return m_type]"

subsection \<open>A caller that keeps a returned span\<close>





subsection \<open>Concrete stores\<close>

text \<open>A store whose cells are all zero, and one with a Token built at address 1.\<close>

definition zero_store :: store where
  "zero_store = (\<lambda>a. \<lparr>m_buffer = 0, m_length = 0, m_type = 0\<rparr>)"

definition used_store :: store where
  "used_store = Token_init zero_store 1 100 5 7"

section \<open>Properties\<close>

subsection \<open>Reading a member after a write\<close>

lemma GetText_Token_init:
  "GetText (Token_init h this buffer length' type) this = Text buffer length'"
  by (simp add: GetText_def Token_init_def)

lemma GetType_Token_init:
  "GetType (Token_init h this buffer length' type) this = type"
  by (simp add: GetType_def Token_init_def)

lemma GetText_SetText:
  "GetText (SetText h this buffer length') this = Text buffer length'"
  by (simp add: GetText_def SetText_def)

lemma GetType_SetText:
  "GetType (SetText h this buffer length') that = GetType h that"
  by (simp add: GetType_def SetText_def)

lemma GetType_SetType:
  "GetType (SetType h this type) this = type"
  by (simp add: GetType_def SetType_def)

lemma GetText_SetType:
  "GetText (SetType h this type) that = GetText h that"
  by (simp add: GetText_def SetType_def)

text \<open>
  C1: a Token built by the combined constructor reads back the span \<open>(start, length)\<close>
  from \<open>GetText\<close> and the type from \<open>GetType\<close>, whatever the three values are and
  whatever the storage held before.
\<close>

theorem Token_init_reads_back:
  "GetText (Token_init h this start length' type) this = Text start length' \<and>
   GetType (Token_init h this start length' type) this = type"
  by (simp add: GetText_Token_init GetType_Token_init)

text \<open>
  C3: after \<open>t.SetText(start2, length2)\<close> the Token's \<open>GetText\<close> is exactly the span
  \<open>(start2, length2)\<close> and its \<open>GetType\<close> is what it was before the call.
\<close>

theorem SetText_sets_span_keeps_type:
  "GetText (SetText h this start2 length2) this = Text start2 length2 \<and>
   GetType (SetText h this start2 length2) this = GetType h this"
  by (simp add: GetText_SetText GetType_SetText)

text \<open>
  C4: after \<open>t.SetType(type2)\<close> the Token's \<open>GetType\<close> is \<open>type2\<close> and its \<open>GetText\<close>
  is the span it was before the call.
\<close>

theorem SetType_sets_type_keeps_span:
  "GetType (SetType h this type2) this = type2 \<and>
   GetText (SetType h this type2) this = GetText h this"
  by (simp add: GetType_SetType GetText_SetType)

subsection \<open>Default construction\<close>



subsection \<open>The combined constructor and the two-phase construction\<close>

lemma Token_two_phase_cell:
  "Token_two_phase h this indet buffer length' type this =
     \<lparr>m_buffer = buffer, m_length = length', m_type = type\<rparr>"
  by (simp add: Token_two_phase_def SetType_def SetText_def Token_void_def)

lemma Token_init_cell:
  "Token_init h this buffer length' type this =
     \<lparr>m_buffer = buffer, m_length = length', m_type = type\<rparr>"
  by (simp add: Token_init_def)

text \<open>
  C5: the Token built by the combined constructor and the Token built by default
  construction followed by \<open>SetText\<close> and \<open>SetType\<close> give the same \<open>GetText\<close> and the same
  \<open>GetType\<close>, wherever the two Tokens live, whatever their storage held before and
  whatever the indeterminate members of the default-constructed Token were. Built at
  the same address, the two constructions leave the same store.
\<close>

theorem Token_init_equals_two_phase:
  "GetText (Token_init h this start length' type) this =
     GetText (Token_two_phase h' that indet start length' type) that \<and>
   GetType (Token_init h this start length' type) this =
     GetType (Token_two_phase h' that indet start length' type) that \<and>
   Token_init h this start length' type = Token_two_phase h this indet start length' type"
proof -
  have "Token_init h this start length' type a =
        Token_two_phase h this indet start length' type a" for a
  proof (cases "a = this")
    case True
    then show ?thesis
      by (simp add: Token_init_cell Token_two_phase_cell)
  next
    case False
    then show ?thesis
      by (simp add: Token_init_def Token_two_phase_def SetType_def SetText_def Token_void_def)
  qed
  then have "Token_init h this start length' type =
             Token_two_phase h this indet start length' type"
    by (rule ext)
  then show ?thesis
    by (simp add: GetText_def GetType_def Token_init_cell Token_two_phase_cell)
qed

subsection \<open>The returned span is a copy\<close>


subsection \<open>Distinct Tokens\<close>

lemma GetText_SetText_other:
  "this \<noteq> that \<Longrightarrow> GetText (SetText h this buffer length') that = GetText h that"
  by (simp add: GetText_def SetText_def)

lemma GetType_SetType_other:
  "this \<noteq> that \<Longrightarrow> GetType (SetType h this type) that = GetType h that"
  by (simp add: GetType_def SetType_def)

text \<open>
  C7: for two distinct Tokens \<open>t1\<close> and \<open>t2\<close>, a \<open>SetText\<close> or \<open>SetType\<close> on \<open>t1\<close> changes
  neither \<open>GetText\<close> nor \<open>GetType\<close> of \<open>t2\<close>. The store is arbitrary, so the spans of the
  two Tokens may overlap in one buffer; \<open>t1\<close> and \<open>t2\<close> are arbitrary too, so the same
  holds with the roles exchanged. No method reads or writes through \<open>m_buffer\<close>.
\<close>

theorem distinct_tokens_independent:
  "t1 \<noteq> t2 \<Longrightarrow>
   GetText (SetText h t1 start2 length2) t2 = GetText h t2 \<and>
   GetType (SetText h t1 start2 length2) t2 = GetType h t2 \<and>
   GetText (SetType h t1 type2) t2 = GetText h t2 \<and>
   GetType (SetType h t1 type2) t2 = GetType h t2"
  by (simp add: GetText_SetText_other GetType_SetText GetText_SetType GetType_SetType_other)

text \<open>
  The Tokens at addresses 1 and 2 cover characters 100 to 104 and 102 to 106 of one
  buffer; the first is then moved and retagged, and the second still reads as built.
\<close>

theorem distinct_tokens_independent_witness:
  "(1::addr) \<noteq> 2 \<and>
   GetText (SetText (Token_init used_store 2 102 5 9) 1 101 3) 2 = Text 102 5 \<and>
   GetType (SetText (Token_init used_store 2 102 5 9) 1 101 3) 2 = 9 \<and>
   GetText (SetType (Token_init used_store 2 102 5 9) 1 4) 2 = Text 102 5 \<and>
   GetType (SetType (Token_init used_store 2 102 5 9) 1 4) 2 = 9"
proof -
  have d: "(1::addr) \<noteq> 2" by simp
  show ?thesis
    using d distinct_tokens_independent [OF d, of "Token_init used_store 2 102 5 9" 101 3 4]
    by (simp add: GetText_Token_init GetType_Token_init)
qed

subsection \<open>Running the bodies\<close>

text \<open>
  Each body, run with at least as much fuel as it has statements, ends with the result
  that the method's function gives.
\<close>

lemma run_Token_void_body:
  "run n Token_void_body indet = Some (Completed (Token_void h this indet this))"
  by (simp add: Token_void_body_def Token_void_def)

lemma run_Token_init_body:
  "run (Suc (Suc (Suc n))) (Token_init_body buffer length' type) (h this) =
     Some (Completed (Token_init h this buffer length' type this))"
  by (simp add: Token_init_body_def Token_init_def)

lemma run_SetText_body:
  "run (Suc (Suc n)) (SetText_body buffer length') (h this) =
     Some (Completed (SetText h this buffer length' this))"
  by (simp add: SetText_body_def SetText_def)

lemma run_GetText_body:
  "run (Suc n) GetText_body (h this) = Some (Returned (h this) (GetText h this))"
  by (simp add: GetText_body_def GetText_def)

lemma run_SetType_body:
  "run (Suc n) (SetType_body type) (h this) =
     Some (Completed (SetType h this type this))"
  by (simp add: SetType_body_def SetType_def)

lemma run_GetType_body:
  "run (Suc n) GetType_body (h this) = Some (Returned (h this) (GetType h this))"
  by (simp add: GetType_body_def GetType_def)

lemma straight_line_bodies:
  "straight_line Token_void_body"
  "straight_line (Token_init_body buffer length' type)"
  "straight_line (SetText_body buffer length')"
  "straight_line GetText_body"
  "straight_line (SetType_body type)"
  "straight_line GetType_body"
  by (simp_all add: Token_void_body_def Token_init_body_def SetText_body_def GetText_body_def
      SetType_body_def GetType_body_def)

text \<open>A body with no \<^verbatim>\<open>throw\<close> and no loop does not throw, whatever the fuel.\<close>

lemma straight_line_not_Thrown:
  "straight_line ss \<Longrightarrow> run n ss t \<noteq> Some Thrown"
proof (induction ss arbitrary: n t)
  case Nil
  show ?case by simp
next
  case (Cons s ss)
  show ?case
  proof (cases n)
    case 0
    then show ?thesis by simp
  next
    case (Suc m)
    show ?thesis
    proof (cases s)
      case (Assign f)
      with Cons.prems have "straight_line ss" by simp
      then have "run m ss (f t) \<noteq> Some Thrown" by (rule Cons.IH)
      with Suc Assign show ?thesis by simp
    next
      case (Return e)
      with Suc show ?thesis by simp
    next
      case Throw
      with Cons.prems show ?thesis by simp
    next
      case (While b body)
      with Cons.prems show ?thesis by simp
    qed
  qed
qed

subsection \<open>No validation, no error path\<close>

text \<open>
  C8: no operation of Token has an error path and none validates its input. Run on any
  object, with any arguments and any amount of fuel, none of the six bodies ends by
  throwing; with fuel for its statements each ends normally, the constructors and
  setters at the closing brace and the getters with their value. For every type value,
  also one that no scanner uses as a category (65535 is the largest \<open>uInt2\<close>),
  \<open>SetType\<close> and the combined constructor store it as given, and for every pointer and
  length \<open>SetText\<close> and the combined constructor store the pair as given. Nothing is
  assumed of the store, the Token or the arguments.
\<close>

theorem token_ops_no_error_path:
  "run n Token_void_body t \<noteq> Some Thrown \<and>
   run n (Token_init_body buffer length' type) t \<noteq> Some Thrown \<and>
   run n (SetText_body buffer length') t \<noteq> Some Thrown \<and>
   run n GetText_body t \<noteq> Some Thrown \<and>
   run n (SetType_body type) t \<noteq> Some Thrown \<and>
   run n GetType_body t \<noteq> Some Thrown \<and>
   run 0 Token_void_body t = Some (Completed t) \<and>
   run 3 (Token_init_body buffer length' type) t =
     Some (Completed \<lparr>m_buffer = buffer, m_length = length', m_type = type\<rparr>) \<and>
   run 2 (SetText_body buffer length') t =
     Some (Completed (t\<lparr>m_buffer := buffer, m_length := length'\<rparr>)) \<and>
   run 1 GetText_body t = Some (Returned t (Text (m_buffer t) (m_length t))) \<and>
   run 1 (SetType_body type) t = Some (Completed (t\<lparr>m_type := type\<rparr>)) \<and>
   run 1 GetType_body t = Some (Returned t (m_type t)) \<and>
   GetType (SetType h this type) this = type \<and>
   GetType (SetType h this 65535) this = 65535 \<and>
   GetText (SetText h this buffer length') this = Text buffer length' \<and>
   GetType (Token_init h this buffer length' type) this = type \<and>
   GetText (Token_init h this buffer length' type) this = Text buffer length'"
proof -
  have thrown:
    "run n Token_void_body t \<noteq> Some Thrown"
    "run n (Token_init_body buffer length' type) t \<noteq> Some Thrown"
    "run n (SetText_body buffer length') t \<noteq> Some Thrown"
    "run n GetText_body t \<noteq> Some Thrown"
    "run n (SetType_body type) t \<noteq> Some Thrown"
    "run n GetType_body t \<noteq> Some Thrown"
    by (simp_all add: straight_line_not_Thrown straight_line_bodies)
  have ends:
    "run 0 Token_void_body t = Some (Completed t)"
    "run 3 (Token_init_body buffer length' type) t =
       Some (Completed \<lparr>m_buffer = buffer, m_length = length', m_type = type\<rparr>)"
    "run 2 (SetText_body buffer length') t =
       Some (Completed (t\<lparr>m_buffer := buffer, m_length := length'\<rparr>))"
    "run 1 GetText_body t = Some (Returned t (Text (m_buffer t) (m_length t)))"
    "run 1 (SetType_body type) t = Some (Completed (t\<lparr>m_type := type\<rparr>))"
    "run 1 GetType_body t = Some (Returned t (m_type t))"
    by (simp_all add: numeral_3_eq_3 numeral_2_eq_2 Token_void_body_def Token_init_body_def
        SetText_body_def GetText_body_def SetType_body_def GetType_body_def)
  show ?thesis
    by (simp only: thrown ends GetType_SetType GetText_SetText GetType_Token_init
        GetText_Token_init simp_thms)
qed

subsection \<open>Termination\<close>

text \<open>
  C9: every operation of Token terminates on every input. None of the six bodies has a
  loop, and run on any object with any arguments each body ends within as many steps as
  it has statements, none for the default constructor, three for the combined
  constructor, two for \<open>SetText\<close> and one for each of the others, with the result of the
  method's function. More fuel changes nothing.
\<close>

theorem token_ops_terminate:
  "straight_line Token_void_body \<and>
   straight_line (Token_init_body buffer length' type) \<and>
   straight_line (SetText_body buffer length') \<and>
   straight_line GetText_body \<and>
   straight_line (SetType_body type) \<and>
   straight_line GetType_body \<and>
   run n Token_void_body indet = Some (Completed (Token_void h this indet this)) \<and>
   run (Suc (Suc (Suc n))) (Token_init_body buffer length' type) (h this) =
     Some (Completed (Token_init h this buffer length' type this)) \<and>
   run (Suc (Suc n)) (SetText_body buffer length') (h this) =
     Some (Completed (SetText h this buffer length' this)) \<and>
   run (Suc n) GetText_body (h this) = Some (Returned (h this) (GetText h this)) \<and>
   run (Suc n) (SetType_body type) (h this) =
     Some (Completed (SetType h this type this)) \<and>
   run (Suc n) GetType_body (h this) = Some (Returned (h this) (GetType h this))"
  by (simp add: straight_line_bodies run_Token_void_body run_Token_init_body
      run_SetText_body run_GetText_body run_SetType_body run_GetType_body)

subsection \<open>Degenerate spans\<close>

text \<open>
  C10: \<open>SetText\<close> and the combined constructor store the pair of buffer pointer and
  length as given, with no relation enforced between the two: a null pointer with a
  length that is not zero, and a zero length with any pointer, come back from \<open>GetText\<close>
  as that pair. A null pointer with length 5 is not turned into the empty span.
\<close>

theorem degenerate_span_stored_verbatim:
  "GetText (SetText h this buffer length') this = Text buffer length' \<and>
   GetText (Token_init h this buffer length' type) this = Text buffer length' \<and>
   GetText (SetText h this 0 length') this = Text 0 length' \<and>
   GetText (Token_init h this 0 length' type) this = Text 0 length' \<and>
   GetText (SetText h this buffer 0) this = Text buffer 0 \<and>
   GetText (Token_init h this buffer 0 type) this = Text buffer 0 \<and>
   GetText (SetText h this 0 5) this = Text 0 5 \<and>
   GetText (SetText h this 0 5) this \<noteq> Text 0 0"
  by (simp add: GetText_SetText GetText_Token_init)

end
